theory Spec2Isabelle
  imports Complex_Main "HOL-Library.Multiset"
begin

section \<open>Python and numpy primitives used by \<open>rfho/datasets.py\<close>\<close>

text \<open>
  Exceptions are values. Only the exception classes that \<open>WindowedData\<close> and
  \<open>ExampleVisiting\<close> can raise are listed. The specification speaks of
  \<open>OutOfRangeError\<close> and \<open>UnsupportedIndexError\<close>; the code raises Python's
  \<open>IndexError\<close> and \<open>TypeError\<close> in those places.
\<close>

datatype error = IndexError | ValueError | TypeError | ZeroDivisionError | AssertionError

definition ebind :: "error + 'a \<Rightarrow> ('a \<Rightarrow> error + 'b) \<Rightarrow> error + 'b" where
  "ebind m f = (case m of Inl e \<Rightarrow> Inl e | Inr x \<Rightarrow> f x)"

text \<open>A list comprehension whose element expression may raise: the first failure wins.\<close>

fun collect :: "(error + 'a) list \<Rightarrow> error + 'a list" where
  "collect [] = Inr []"
| "collect (m # ms) = ebind m (\<lambda>x. ebind (collect ms) (\<lambda>xs. Inr (x # xs)))"

text \<open>\<open>xs[i]\<close> for an integer \<open>i\<close>: negative indices count from the end.\<close>

definition norm_index :: "nat \<Rightarrow> int \<Rightarrow> error + nat" where
  "norm_index n i =
     (if 0 \<le> i \<and> i < int n then Inr (nat i)
      else if i < 0 \<and> - int n \<le> i then Inr (nat (i + int n))
      else Inl IndexError)"

definition py_index :: "'a list \<Rightarrow> int \<Rightarrow> error + 'a" where
  "py_index xs i = ebind (norm_index (length xs) i) (\<lambda>k. Inr (xs ! k))"

text \<open>\<open>xs[lo:hi]\<close> with both ends given: ends are wrapped when negative, then clamped.\<close>

definition py_slice :: "'a list \<Rightarrow> int \<Rightarrow> int \<Rightarrow> 'a list" where
  "py_slice xs lo hi =
     (let n = int (length xs);
          lo' = (if lo < 0 then max (lo + n) 0 else min lo n);
          hi' = (if hi < 0 then max (hi + n) 0 else min hi n)
      in take (nat (hi' - lo')) (drop (nat lo') xs))"

text \<open>\<open>slice(start, stop, step).indices(n)\<close>.\<close>

definition slice_indices ::
  "int option \<Rightarrow> int option \<Rightarrow> int option \<Rightarrow> int \<Rightarrow> error + (int \<times> int \<times> int)" where
  "slice_indices start stop step n =
     (let st = (case step of None \<Rightarrow> 1 | Some s \<Rightarrow> s) in
      if st = 0 then Inl ValueError
      else
        let lower = (if st < 0 then - 1 else 0);
            upper = (if st < 0 then n - 1 else n);
            a = (case start of
                   None \<Rightarrow> (if st < 0 then upper else lower)
                 | Some s \<Rightarrow> (if s < 0 then max (s + n) lower else min s upper));
            b = (case stop of
                   None \<Rightarrow> (if st < 0 then lower else upper)
                 | Some s \<Rightarrow> (if s < 0 then max (s + n) lower else min s upper))
        in Inr (a, b, st))"

text \<open>\<open>list(range(start, stop, step))\<close> for a non-zero step.\<close>

definition py_range :: "int \<Rightarrow> int \<Rightarrow> int \<Rightarrow> int list" where
  "py_range start stop step =
     (if 0 < step
      then map (\<lambda>k. start + int k * step) [0..<nat ((stop - start + step - 1) div step)]
      else if step < 0
      then map (\<lambda>k. start + int k * step) [0..<nat ((start - stop - step - 1) div (- step))]
      else [])"

text \<open>
  \<open>np.concatenate\<close> of a sequence of one-dimensional arrays; numpy refuses an empty
  sequence ("need at least one array to concatenate").
\<close>

definition np_concatenate :: "'a list list \<Rightarrow> error + 'a list" where
  "np_concatenate arrays = (case arrays of [] \<Rightarrow> Inl ValueError | _ # _ \<Rightarrow> Inr (concat arrays))"

text \<open>
  \<open>np.vstack\<close> of one-dimensional arrays: they become the rows of a matrix, and must
  be at least one and of one length.
\<close>

definition np_vstack :: "'a list list \<Rightarrow> error + 'a list list" where
  "np_vstack arrays =
     (case arrays of
        [] \<Rightarrow> Inl ValueError
      | r # _ \<Rightarrow> if list_all (\<lambda>q. length q = length r) arrays then Inr arrays else Inl ValueError)"

text \<open>
  A two-dimensional array is the list of its rows. The number of columns of an array
  without rows is not kept (numpy keeps it); only \<open>shape[1]\<close> of an empty table would
  show the difference.
\<close>

definition ncols :: "'a list list \<Rightarrow> nat" where
  "ncols a = (case a of [] \<Rightarrow> 0 | r # _ \<Rightarrow> length r)"

text \<open>
  What can stand in an index position: an integer, a slice, or a sequence of integers.
  An item is one index or a tuple of them.
\<close>

datatype index = IInt int | ISlice "int option" "int option" "int option" | ISeq "int list"

datatype item = Single index | Tuple "index list"

datatype 'a result = Scalar 'a | Vector "'a list" | Matrix "'a list list"

text \<open>The positions that an index selects on an axis of length \<open>n\<close> of a numpy array.\<close>

fun axis_positions :: "nat \<Rightarrow> index \<Rightarrow> error + nat list" where
  "axis_positions n (IInt i) = ebind (norm_index n i) (\<lambda>k. Inr [k])"
| "axis_positions n (ISlice a b c) =
     ebind (slice_indices a b c (int n)) (\<lambda>(lo, hi, st). Inr (map nat (py_range lo hi st)))"
| "axis_positions n (ISeq js) = collect (map (norm_index n) js)"

text \<open>
  \<open>a[item]\<close> on a two-dimensional numpy array. An integer removes its axis; two
  sequences are paired element by element (a sequence of length one is broadcast);
  more than two indices are too many.
\<close>

fun nd_pair :: "'a list list \<Rightarrow> index \<Rightarrow> index \<Rightarrow> nat list \<Rightarrow> nat list \<Rightarrow> error + 'a result" where
  "nd_pair a (IInt _) (IInt _) rs cs = Inr (Scalar (a ! hd rs ! hd cs))"
| "nd_pair a (IInt _) _ rs cs = Inr (Vector (map (\<lambda>j. a ! hd rs ! j) cs))"
| "nd_pair a (ISeq _) (ISeq _) rs cs =
     (if length rs = length cs then Inr (Vector (map (\<lambda>(k, j). a ! k ! j) (zip rs cs)))
      else if length rs = 1 then Inr (Vector (map (\<lambda>j. a ! hd rs ! j) cs))
      else if length cs = 1 then Inr (Vector (map (\<lambda>k. a ! k ! hd cs) rs))
      else Inl IndexError)"
| "nd_pair a _ (IInt _) rs cs = Inr (Vector (map (\<lambda>k. a ! k ! hd cs) rs))"
| "nd_pair a _ _ rs cs = Inr (Matrix (map (\<lambda>k. map (\<lambda>j. a ! k ! j) cs) rs))"

fun nd_single :: "'a list list \<Rightarrow> index \<Rightarrow> error + 'a result" where
  "nd_single a (IInt i) = ebind (norm_index (length a) i) (\<lambda>k. Inr (Vector (a ! k)))"
| "nd_single a idx =
     ebind (axis_positions (length a) idx) (\<lambda>ks. Inr (Matrix (map (\<lambda>k. a ! k) ks)))"

fun nd_getitem :: "'a list list \<Rightarrow> item \<Rightarrow> error + 'a result" where
  "nd_getitem a (Single idx) = nd_single a idx"
| "nd_getitem a (Tuple []) = Inr (Matrix a)"
| "nd_getitem a (Tuple [idx]) = nd_single a idx"
| "nd_getitem a (Tuple [r, c]) =
     ebind (axis_positions (length a) r) (\<lambda>rs.
     ebind (axis_positions (ncols a) c) (\<lambda>cs. nd_pair a r c rs cs))"
| "nd_getitem a (Tuple _) = Inl IndexError"

section \<open>\<open>WindowedData\<close>\<close>

text \<open>
  The object keeps the half-window, the table, its shape and the interval tree of the
  sentence bounds. \<open>process_all\<close> is \<open>None\<close> while the attribute is not set yet, which
  is what \<open>hasattr(self, 'process_all')\<close> tests during construction.

  The interval tree is a set of half-open intervals \<open>(begin, end)\<close>; the model keeps
  them as a duplicate-free list. \<open>self.tree[item]\<close> is the set of the intervals that
  contain the point, and \<open>list(...)[0]\<close> takes the first one in the set's iteration
  order, which Python leaves open: the list order stands for it, and it matters only
  when intervals overlap.
\<close>

record 'a WindowedData =
  window :: int
  data :: "'a list list"
  shape :: "int \<times> int"
  tree :: "(int \<times> int) list"
  process_all :: "bool option"

definition tree_at :: "(int \<times> int) list \<Rightarrow> int \<Rightarrow> (int \<times> int) list" where
  "tree_at t p = filter (\<lambda>iv. fst iv \<le> p \<and> p < snd iv) t"

definition len :: "'a WindowedData \<Rightarrow> int" where
  "len wd = fst (shape wd)"

definition pad :: "'a list \<Rightarrow> int \<Rightarrow> error + 'a list" where
  "pad example sz = np_concatenate (replicate (nat sz) example)"

definition get_context :: "'a WindowedData \<Rightarrow> int \<Rightarrow> error + 'a list" where
  "get_context wd item =
     (case tree_at (tree wd) item of
        [] \<Rightarrow> Inl IndexError
      | interval # _ \<Rightarrow>
          let left = fst interval;
              right = snd interval;
              left_pad = max (window wd + left - item) 0;
              right_pad = max 0 (window wd - min right (len wd - 1) + item)
          in
          ebind (np_concatenate
                   (py_slice (data wd) (item - window wd + left_pad)
                      (item + window wd + 1 - right_pad))) (\<lambda>base.
          ebind (if left_pad \<noteq> 0
                 then ebind (py_index (data wd) item) (\<lambda>row.
                      ebind (pad row left_pad) (\<lambda>p. np_concatenate [p, base]))
                 else Inr base) (\<lambda>base.
          if right_pad \<noteq> 0
          then ebind (py_index (data wd) item) (\<lambda>row.
               ebind (pad row right_pad) (\<lambda>p. np_concatenate [base, p]))
          else Inr base)))"

text \<open>
  The rows that the non-materialized branches of \<open>__getitem__\<close> iterate over: a slice
  is turned into \<open>range(*rows.indices(self.shape[0]))\<close>, a sequence is taken as it is,
  and iterating over an integer is a \<open>TypeError\<close>.
\<close>

definition iter_rows :: "'a WindowedData \<Rightarrow> index \<Rightarrow> error + int list" where
  "iter_rows wd rows =
     (case rows of
        ISlice a b c \<Rightarrow>
          ebind (slice_indices a b c (fst (shape wd))) (\<lambda>(lo, hi, st). Inr (py_range lo hi st))
      | ISeq js \<Rightarrow> Inr js
      | IInt _ \<Rightarrow> Inl TypeError)"

definition getitem :: "'a WindowedData \<Rightarrow> item \<Rightarrow> error + 'a result" where
  "getitem wd item =
     (if process_all wd = Some True then nd_getitem (data wd) item
      else
        case item of
          Single (IInt i) \<Rightarrow> ebind (get_context wd i) (\<lambda>v. Inr (Vector v))
        | Tuple idxs \<Rightarrow>
            (case idxs of
               [IInt r, IInt c] \<Rightarrow>
                 ebind (get_context wd r) (\<lambda>v. ebind (py_index v c) (\<lambda>x. Inr (Scalar x)))
             | [rows, columns] \<Rightarrow>
                 ebind (iter_rows wd rows) (\<lambda>rs.
                 ebind (collect (map (get_context wd) rs)) (\<lambda>vs.
                 ebind (np_vstack vs) (\<lambda>m.
                 nd_getitem m (Tuple [ISlice None None None, columns]))))
             | _ \<Rightarrow> Inl TypeError)
        | Single idx \<Rightarrow>
            ebind (iter_rows wd idx) (\<lambda>rs.
            ebind (collect (map (get_context wd) rs)) (\<lambda>vs.
            ebind (np_vstack vs) (\<lambda>m. Inr (Matrix m)))))"

definition generate_all :: "'a WindowedData \<Rightarrow> error + 'a result" where
  "generate_all wd = getitem wd (Single (ISlice None None None))"

text \<open>
  The constructor. \<open>IntervalTree\<close> refuses a null interval (\<open>begin \<ge> end\<close>) with a
  \<open>ValueError\<close>. With \<open>process_all\<close> the table is replaced by \<open>generate_all()\<close>, computed
  while the attribute \<open>process_all\<close> is still unset. The two progress messages printed
  around it are left out.
\<close>

definition WindowedData_init ::
  "'a list list \<Rightarrow> (int \<times> int) list \<Rightarrow> int \<Rightarrow> bool \<Rightarrow> error + 'a WindowedData" where
  "WindowedData_init dat row_sentence_bounds win pa =
     (let intervals = map (\<lambda>e. (fst e, snd e + 1)) row_sentence_bounds in
      if list_ex (\<lambda>iv. snd iv \<le> fst iv) intervals then Inl ValueError
      else
        let wd = \<lparr>window = win, data = dat,
                  shape = (int (length dat), (2 * win + 1) * int (ncols dat)),
                  tree = remdups intervals, process_all = None\<rparr>
        in
        if pa
        then (case generate_all wd of
                Inl e \<Rightarrow> Inl e
              | Inr (Matrix m) \<Rightarrow> Inr (wd\<lparr>data := m, process_all := Some pa\<rparr>)
              | Inr _ \<Rightarrow> Inl TypeError)
        else Inr (wd\<lparr>process_all := Some pa\<rparr>))"

section \<open>\<open>Dataset\<close> and \<open>ExampleVisiting\<close>\<close>

text \<open>
  A \<open>Dataset\<close> holds two numpy arrays; here both are two-dimensional, as the batch
  supplier indexes them with \<open>[nb, :]\<close>. Its constructor asserts that the targets have
  as many rows as the data (the per-sample information, which it also checks, is left
  out).
\<close>

record 'a Dataset =
  dataset_data :: "'a list list"
  dataset_target :: "'a list list"

definition num_examples :: "'a Dataset \<Rightarrow> int" where
  "num_examples d = int (length (dataset_data d))"

definition Dataset_init :: "'a list list \<Rightarrow> 'a list list \<Rightarrow> error + 'a Dataset" where
  "Dataset_init dat tgt =
     (if length dat = length tgt then Inr \<lparr>dataset_data = dat, dataset_target = tgt\<rparr>
      else Inl AssertionError)"

record 'a ExampleVisiting =
  dataset :: "'a Dataset"
  batch_size :: int
  epochs :: "int option"
  T :: int
  training_schedule :: "nat list option"
  iter_per_epoch :: int

text \<open>
  \<open>int(np.ceil(n / b))\<close> and \<open>int(n / b)\<close> go through a floating-point quotient in
  the source. The model computes them on the integers, which is what the floats give
  as long as both numbers are below \<open>2^53\<close> in absolute value.
\<close>

definition ceil_div :: "int \<Rightarrow> int \<Rightarrow> int" where
  "ceil_div n b = - ((- n) div b)"

definition trunc_div :: "int \<Rightarrow> int \<Rightarrow> int" where
  "trunc_div n b = sgn n * sgn b * (\<bar>n\<bar> div \<bar>b\<bar>)"

text \<open>Python's truth value of \<open>self.epochs\<close>: \<open>None\<close> and \<open>0\<close> are false.\<close>

definition truthy :: "int option \<Rightarrow> bool" where
  "truthy e = (case e of None \<Rightarrow> False | Some k \<Rightarrow> k \<noteq> 0)"

definition ExampleVisiting_init ::
  "'a Dataset \<Rightarrow> int \<Rightarrow> int option \<Rightarrow> error + 'a ExampleVisiting" where
  "ExampleVisiting_init d b ep =
     (if b = 0 then Inl ZeroDivisionError
      else
        let t = ceil_div (num_examples d) b;
            t = (case ep of None \<Rightarrow> t | Some k \<Rightarrow> if k = 0 then t else t * k)
        in Inr \<lparr>dataset = d, batch_size = b, epochs = ep, T = t,
                 training_schedule = None,
                 iter_per_epoch = trunc_div (num_examples d) b\<rparr>)"

text \<open>
  The state that the supplier reads and writes: the object itself, numpy's global
  random generator and the standard output. The generator is a sequence of raw draws
  and the position of the next one; nothing is assumed about the draws, so a statement
  for every state is a statement for every outcome of the shuffles.
\<close>

record 'a state =
  self :: "'a ExampleVisiting"
  rng_draws :: "nat \<Rightarrow> nat"
  rng_pos :: nat
  stdout :: "string list"

text \<open>
  \<open>np.random.shuffle\<close> on a Python list: for \<open>i\<close> from \<open>n - 1\<close> down to \<open>1\<close> it draws
  \<open>j\<close> in \<open>[0, i]\<close> and swaps the entries \<open>i\<close> and \<open>j\<close>. \<open>shuffle_from g p i xs\<close> runs
  the loop from \<open>i\<close> downwards and returns the list with the generator's new position.
\<close>

fun shuffle_from :: "(nat \<Rightarrow> nat) \<Rightarrow> nat \<Rightarrow> nat \<Rightarrow> 'a list \<Rightarrow> 'a list \<times> nat" where
  "shuffle_from g p 0 xs = (xs, p)"
| "shuffle_from g p (Suc i) xs =
     (let j = g p mod (Suc (Suc i))
      in shuffle_from g (Suc p) i (xs[Suc i := xs ! j, j := xs ! Suc i]))"

definition np_random_shuffle :: "(nat \<Rightarrow> nat) \<Rightarrow> nat \<Rightarrow> 'a list \<Rightarrow> 'a list \<times> nat" where
  "np_random_shuffle g p xs = shuffle_from g p (length xs - 1) xs"

definition all_indices_shuffled :: "nat \<Rightarrow> (nat \<Rightarrow> nat) \<Rightarrow> nat \<Rightarrow> nat list \<times> nat" where
  "all_indices_shuffled n g p = np_random_shuffle g p [0..<n]"

text \<open>The list comprehension \<open>[all_indices_shuffled() for _ in range(k)]\<close>.\<close>

fun shuffled_epochs :: "nat \<Rightarrow> nat \<Rightarrow> (nat \<Rightarrow> nat) \<Rightarrow> nat \<Rightarrow> nat list list \<times> nat" where
  "shuffled_epochs 0 n g p = ([], p)"
| "shuffled_epochs (Suc k) n g p =
     (let (xs, p1) = all_indices_shuffled n g p;
          (xss, p2) = shuffled_epochs k n g p1
      in (xs # xss, p2))"

text \<open>
  \<open>generate_visiting_scheme\<close>: \<open>self.epochs or 1\<close> permutations are concatenated;
  \<open>np.concatenate\<close> of no list at all (a negative \<open>epochs\<close>) is a \<open>ValueError\<close>, raised
  before anything is stored.
\<close>

definition epochs_or_1 :: "int option \<Rightarrow> int" where
  "epochs_or_1 e = (case e of None \<Rightarrow> 1 | Some k \<Rightarrow> if k = 0 then 1 else k)"

definition generate_visiting_scheme :: "'a state \<Rightarrow> (error + unit) \<times> 'a state" where
  "generate_visiting_scheme s =
     (let k = epochs_or_1 (epochs (self s)) in
      if k \<le> 0 then (Inl ValueError, s)
      else
        let (xss, p) = shuffled_epochs (nat k) (nat (num_examples (dataset (self s))))
                         (rng_draws s) (rng_pos s)
        in (Inr (), s\<lparr>self := (self s)\<lparr>training_schedule := Some (concat xss)\<rparr>,
                       rng_pos := p\<rparr>))"

text \<open>
  What the supplier returns: a dictionary from placeholders to a batch (for \<open>x\<close> and
  \<open>y\<close>) or to any other payload (the other feeds and the values of the lambda feeds).
\<close>

datatype ('a, 'p) feed = Batch "'a list list" | Payload 'p

text \<open>\<open>a[nb, :]\<close> for an array of row numbers \<open>nb\<close>.\<close>

definition take_rows :: "'a list list \<Rightarrow> nat list \<Rightarrow> error + 'a list list" where
  "take_rows a nb =
     (if list_all (\<lambda>k. k < length a) nb then Inr (map (\<lambda>k. a ! k) nb)
      else Inl IndexError)"

definition warning :: string where
  "warning = ''WARNING: End of the training scheme reached.Generating another scheme.''"

definition print :: "string \<Rightarrow> 'a state \<Rightarrow> 'a state" where
  "print line s = s\<lparr>stdout := stdout s @ [line]\<rparr>"

text \<open>
  The first block of \<open>_training_supplier\<close>: the step is reduced modulo \<open>self.T\<close>, and
  at a multiple of \<open>self.T\<close> a new schedule is generated (with the warning when
  \<open>self.epochs\<close> is true). Comparing \<open>None\<close> with an integer raises \<open>TypeError\<close>, and
  the modulus by \<open>T = 0\<close> raises \<open>ZeroDivisionError\<close>.
\<close>

definition wrap_step :: "int option \<Rightarrow> 'a state \<Rightarrow> (error + int) \<times> 'a state" where
  "wrap_step step s =
     (case step of
        None \<Rightarrow> (Inl TypeError, s)
      | Some st \<Rightarrow>
          if T (self s) \<le> st then
            if T (self s) = 0 then (Inl ZeroDivisionError, s)
            else if st mod T (self s) = 0 then
              (let s1 = (if truthy (epochs (self s)) then print warning s else s) in
               case generate_visiting_scheme s1 of
                 (Inl e, s2) \<Rightarrow> (Inl e, s2)
               | (Inr _, s2) \<Rightarrow> (Inr (st mod T (self s)), s2))
            else (Inr (st mod T (self s)), s)
          else (Inr st, s))"

text \<open>The second block: a schedule is generated when there is none yet.\<close>

definition ensure_schedule :: "'a state \<Rightarrow> (error + unit) \<times> 'a state" where
  "ensure_schedule s =
     (if training_schedule (self s) = None then generate_visiting_scheme s else (Inr (), s))"

text \<open>The slice of the schedule that makes the batch of a step.\<close>

definition batch_indices :: "nat list \<Rightarrow> int \<Rightarrow> int \<Rightarrow> nat list" where
  "batch_indices schedule step b =
     py_slice schedule (step * b) (min ((step + 1) * b) (int (length schedule)))"

text \<open>
  The third block: the rows of the batch are read from the data and the targets, the
  lambda feeds are applied to the row numbers, and the dictionaries are merged, later
  ones overriding earlier ones. \<open>lambda_processed_feeds\<close> is assigned before it is read
  in every call, so it is a local value here. A schedule over no example at all is an
  empty array of floats, which numpy does not accept as an index.
\<close>

definition make_feed ::
  "'k \<Rightarrow> 'k \<Rightarrow> ('k \<rightharpoonup> 'p) \<Rightarrow> ('k \<rightharpoonup> (nat list \<Rightarrow> 'p)) \<Rightarrow> nat list \<Rightarrow> 'a list list \<Rightarrow> 'a list list
     \<Rightarrow> ('k \<rightharpoonup> ('a, 'p) feed)" where
  "make_feed x y other_feeds lambda_feeds nb bx by =
     [x \<mapsto> Batch bx, y \<mapsto> Batch by]
       ++ (\<lambda>k. map_option Payload (other_feeds k))
       ++ (\<lambda>k. map_option (\<lambda>v. Payload (v nb)) (lambda_feeds k))"

definition training_supplier ::
  "'k \<Rightarrow> 'k \<Rightarrow> ('k \<rightharpoonup> 'p) \<Rightarrow> ('k \<rightharpoonup> (nat list \<Rightarrow> 'p)) \<Rightarrow> int option \<Rightarrow> 'a state
     \<Rightarrow> (error + ('k \<rightharpoonup> ('a, 'p) feed)) \<times> 'a state" where
  "training_supplier x y other_feeds lambda_feeds step s =
     (case wrap_step step s of
        (Inl e, s1) \<Rightarrow> (Inl e, s1)
      | (Inr st, s1) \<Rightarrow>
          (case ensure_schedule s1 of
             (Inl e, s2) \<Rightarrow> (Inl e, s2)
           | (Inr _, s2) \<Rightarrow>
               (case training_schedule (self s2) of
                  None \<Rightarrow> (Inl TypeError, s2)
                | Some schedule \<Rightarrow>
                    let nb = batch_indices schedule st (batch_size (self s2)) in
                    (if num_examples (dataset (self s2)) = 0 then Inl IndexError
                     else
                       ebind (take_rows (dataset_data (dataset (self s2))) nb) (\<lambda>bx.
                       ebind (take_rows (dataset_target (dataset (self s2))) nb) (\<lambda>by.
                       Inr (make_feed x y other_feeds lambda_feeds nb bx by))), s2))))"

section \<open>The specification's row\<close>

text \<open>
  The specification's description of \<open>get_row\<close>, written from its words for a segment
  \<open>[start, end)\<close> of an \<open>n\<close>-row table: it is what \<open>get_context\<close> is compared with.
\<close>

definition spec_get_row :: "'a list list \<Rightarrow> int \<Rightarrow> int \<Rightarrow> int \<Rightarrow> int \<Rightarrow> 'a list" where
  "spec_get_row rows w start end' i =
     (let n = int (length rows);
          left_pad = max 0 (w + start - i);
          right_pad = max 0 (w - min (end' - 1) (n - 1) + i)
      in concat (replicate (nat left_pad) (rows ! nat i))
         @ concat (map (\<lambda>k. rows ! k) [nat (i - w + left_pad)..<nat (i + w + 1 - right_pad)])
         @ concat (replicate (nat right_pad) (rows ! nat i)))"

lemma ebind_Inr [simp]: "ebind (Inr x) f = f x"
  by (simp add: ebind_def)

lemma ebind_Inl [simp]: "ebind (Inl e) f = Inl e"
  by (simp add: ebind_def)

section \<open>Facts about \<open>WindowedData\<close>\<close>

lemma py_slice_nth:
  assumes "0 \<le> lo" "lo \<le> hi" "hi \<le> int (length xs)"
  shows "py_slice xs lo hi = map (\<lambda>k. xs ! k) [nat lo..<nat hi]"
proof -
  have "py_slice xs lo hi = take (nat hi - nat lo) (drop (nat lo) xs)"
    using assms by (simp add: py_slice_def Let_def min_def nat_diff_distrib)
  also have "\<dots> = map (\<lambda>k. xs ! k) [nat lo..<nat hi]"
    using assms by (intro nth_equalityI) (auto simp: nat_le_iff)
  finally show ?thesis .
qed

lemma tree_at_hd:
  assumes "tree_at t p = iv # rest"
  shows "fst iv \<le> p \<and> p < snd iv \<and> iv \<in> set t"
proof -
  have "iv \<in> set (tree_at t p)" using assms by simp
  then show ?thesis by (simp add: tree_at_def)
qed

lemma pad_pos: "0 < k \<Longrightarrow> pad r k = Inr (concat (replicate (nat k) r))"
  by (cases "nat k") (auto simp: pad_def np_concatenate_def)

lemma py_index_nat: "0 \<le> i \<Longrightarrow> i < int (length xs) \<Longrightarrow> py_index xs i = Inr (xs ! nat i)"
  by (simp add: py_index_def norm_index_def)

lemma get_context_value:
  assumes pick: "tree_at (tree wd) i = (l, r) # rest"
    and len: "len wd = int (length (data wd))"
    and w: "0 \<le> window wd"
    and l: "0 \<le> l"
    and i: "i < int (length (data wd))"
  defines "lp \<equiv> max (window wd + l - i) 0"
    and "rp \<equiv> max 0 (window wd - min r (int (length (data wd)) - 1) + i)"
  shows "get_context wd i =
           Inr (concat (replicate (nat lp) (data wd ! nat i))
                @ concat (map (\<lambda>k. data wd ! k)
                    [nat (i - window wd + lp)..<nat (i + window wd + 1 - rp)])
                @ concat (replicate (nat rp) (data wd ! nat i)))"
proof -
  let ?d = "data wd" and ?w = "window wd"
  from tree_at_hd[OF pick] have li: "l \<le> i" and ir: "i < r" by simp_all
  have i0: "0 \<le> i" using l li by simp
  let ?lo = "i - ?w + lp" and ?hi = "i + ?w + 1 - rp"
  have lo0: "0 \<le> ?lo" using l li w by (simp add: lp_def max_def)
  have lohi: "?lo \<le> i" using l li w by (simp add: lp_def max_def)
  have ihi: "i < ?hi" using ir i w by (simp add: rp_def max_def min_def)
  have hin: "?hi \<le> int (length ?d)" using ir i w by (simp add: rp_def max_def min_def)
  have sl: "py_slice ?d ?lo ?hi = map (\<lambda>k. ?d ! k) [nat ?lo..<nat ?hi]"
    using lo0 lohi ihi hin by (intro py_slice_nth) simp_all
  have ne: "[nat ?lo..<nat ?hi] \<noteq> []" using lo0 lohi ihi by simp
  then have base: "np_concatenate (py_slice ?d ?lo ?hi) = Inr (concat (map (\<lambda>k. ?d ! k) [nat ?lo..<nat ?hi]))"
    unfolding sl np_concatenate_def by (cases "map (\<lambda>k. ?d ! k) [nat ?lo..<nat ?hi]") simp_all
  have row: "py_index ?d i = Inr (?d ! nat i)" using i0 i by (rule py_index_nat)
  have lp0: "0 \<le> lp" and rp0: "0 \<le> rp" by (simp_all add: lp_def rp_def)
  have two: "\<And>p b::'a list. np_concatenate [p, b] = Inr (p @ b)"
    by (simp add: np_concatenate_def)
  have padl: "lp \<noteq> 0 \<Longrightarrow> pad (?d ! nat i) lp = Inr (concat (replicate (nat lp) (?d ! nat i)))"
    using lp0 by (intro pad_pos) simp
  have padr: "rp \<noteq> 0 \<Longrightarrow> pad (?d ! nat i) rp = Inr (concat (replicate (nat rp) (?d ! nat i)))"
    using rp0 by (intro pad_pos) simp
  have "get_context wd i =
          ebind (np_concatenate (py_slice ?d ?lo ?hi)) (\<lambda>base.
          ebind (if lp \<noteq> 0
                 then ebind (py_index ?d i) (\<lambda>row.
                      ebind (pad row lp) (\<lambda>p. np_concatenate [p, base]))
                 else Inr base) (\<lambda>base.
          if rp \<noteq> 0
          then ebind (py_index ?d i) (\<lambda>row.
               ebind (pad row rp) (\<lambda>p. np_concatenate [base, p]))
          else Inr base))"
    by (simp add: get_context_def pick Let_def len lp_def rp_def cong: if_cong)
  also have "\<dots> = Inr (concat (replicate (nat lp) (?d ! nat i))
                @ concat (map (\<lambda>k. ?d ! k) [nat ?lo..<nat ?hi])
                @ concat (replicate (nat rp) (?d ! nat i)))"
    by (simp add: base row two padl padr)
  finally show ?thesis .
qed

lemma init_fields:
  assumes "WindowedData_init dat bounds w pa = Inr wd"
  shows "window wd = w" and "shape wd = (int (length dat), (2 * w + 1) * int (ncols dat))"
    and "tree wd = remdups (map (\<lambda>e. (fst e, snd e + 1)) bounds)"
    and "process_all wd = Some pa"
  using assms
  by (auto simp: WindowedData_init_def Let_def split: if_splits sum.splits result.splits)

lemma init_False_data:
  assumes "WindowedData_init dat bounds w False = Inr wd"
  shows "data wd = dat" and "len wd = int (length dat)"
  using assms
  by (auto simp: WindowedData_init_def Let_def len_def split: if_splits)

lemma tree_at_remdups_empty:
  assumes "\<not> list_ex (\<lambda>e. fst e \<le> i \<and> i \<le> snd e) bounds"
  shows "tree_at (remdups (map (\<lambda>e. (fst e, snd e + 1)) bounds)) i = []"
  using assms by (auto simp: tree_at_def list_ex_iff filter_empty_conv)

text \<open>
  Claim C8. A row index that no sentence bound covers makes \<open>get_context\<close> fail: the
  tree returns no interval and taking the first element of the empty list raises
  \<open>IndexError\<close>, the code's out-of-range error. Nothing catches it, and \<open>get_context\<close>
  only reads the object: it returns a value and no new state.
\<close>

theorem get_context_uncovered:
  assumes "WindowedData_init dat bounds w pa = Inr wd"
    and "\<not> list_ex (\<lambda>e. fst e \<le> i \<and> i \<le> snd e) bounds"
  shows "get_context wd i = Inl IndexError"
  using tree_at_remdups_empty[OF assms(2)] init_fields(3)[OF assms(1)]
  by (simp add: get_context_def)

theorem get_context_uncovered_witness:
  "WindowedData_init [[1], [2::int]] [(0, 1)] 1 False
     = Inr \<lparr>window = 1, data = [[1], [2]], shape = (2, 3), tree = [(0, 2)],
            process_all = Some False\<rparr>
   \<and> \<not> list_ex (\<lambda>e. fst e \<le> 5 \<and> (5::int) \<le> snd e) [(0, 1)]
   \<and> get_context \<lparr>window = 1, data = [[1], [2::int]], shape = (2, 3), tree = [(0, 2)],
            process_all = Some False\<rparr> 5 = Inl IndexError"
proof -
  have a: "WindowedData_init [[1], [2::int]] [(0, 1)] 1 False
     = Inr \<lparr>window = 1, data = [[1], [2]], shape = (2, 3), tree = [(0, 2)],
            process_all = Some False\<rparr>"
    by (simp add: WindowedData_init_def ncols_def)
  have b: "\<not> list_ex (\<lambda>e. fst e \<le> 5 \<and> (5::int) \<le> snd e) [(0, 1)]"
    by simp
  from get_context_uncovered[OF a b] a b show ?thesis by simp
qed

text \<open>
  Claim C9. On an object that is not materialized, a tuple index whose length is not two
  is refused with the \<open>TypeError\<close> "NOT IMPLEMENTED", the code's unsupported-index
  error, whatever the tuple holds.
\<close>

theorem getitem_tuple_not_pair:
  assumes "process_all wd \<noteq> Some True" and "length idxs \<noteq> 2"
  shows "getitem wd (Tuple idxs) = Inl TypeError"
proof (cases idxs)
  case Nil
  then show ?thesis using assms(1) by (simp add: getitem_def)
next
  case (Cons a as)
  note outer = Cons
  show ?thesis
  proof (cases as)
    case Nil
    then show ?thesis using assms(1) outer by (cases a) (simp_all add: getitem_def)
  next
    case (Cons b bs)
    then obtain c cs where "bs = c # cs" using assms(2) outer by (cases bs) auto
    then show ?thesis using assms(1) outer Cons
      by (cases a; cases b) (simp_all add: getitem_def)
  qed
qed


theorem getitem_tuple_not_pair_witness:
  "process_all \<lparr>window = 1, data = [[1], [2::int]], shape = (2, 3), tree = [(0, 2)],
      process_all = Some False\<rparr> \<noteq> Some True
   \<and> length [IInt 0, IInt 0, IInt 0] \<noteq> 2
   \<and> getitem \<lparr>window = 1, data = [[1], [2::int]], shape = (2, 3), tree = [(0, 2)],
      process_all = Some False\<rparr> (Tuple [IInt 0, IInt 0, IInt 0]) = Inl TypeError"
proof -
  let ?wd = "\<lparr>window = 1, data = [[1], [2::int]], shape = (2, 3), tree = [(0, 2)],
      process_all = Some False\<rparr>"
  have a: "process_all ?wd \<noteq> Some True" by simp
  have b: "length [IInt 0, IInt 0, IInt 0] \<noteq> 2" by simp
  from getitem_tuple_not_pair[OF a b] a b show ?thesis by simp
qed

text \<open>
  Claim C2. At the left edge of a segment \<open>[start, end)\<close> that lies in the table
  (\<open>i < start + w\<close>), with \<open>i + w\<close> still inside the segment, \<open>get_context\<close> returns
  \<open>w + start - i\<close> copies of row \<open>i\<close> followed by the rows \<open>start\<close> to \<open>i + w\<close>. For
  every table of five rows with the single segment \<open>[0, 5)\<close> and \<open>w = 2\<close>, index \<open>0\<close>
  gives rows \<open>0, 0, 0, 1, 2\<close>.
\<close>

theorem get_context_left_edge:
  "(WindowedData_init dat bounds w False = Inr wd
      \<and> tree_at (tree wd) i = (start, end') # rest
      \<and> 0 \<le> start \<and> i < start + w \<and> i + w < end' \<and> end' \<le> int (length dat)
    \<longrightarrow> get_context wd i =
          Inr (concat (replicate (nat (w + start - i)) (dat ! nat i))
               @ concat (map (\<lambda>k. dat ! k) [nat start..<nat (i + w + 1)])))
   \<and> (\<exists>wd5. WindowedData_init [r0, r1, r2, r3, r4] [(0, 4)] 2 False = Inr wd5
         \<and> tree wd5 = [(0, 5)]
         \<and> get_context wd5 0 = Inr (r0 @ r0 @ r0 @ r1 @ r2))"
proof (intro conjI impI)
  assume h: "WindowedData_init dat bounds w False = Inr wd
      \<and> tree_at (tree wd) i = (start, end') # rest
      \<and> 0 \<le> start \<and> i < start + w \<and> i + w < end' \<and> end' \<le> int (length dat)"
  then have init: "WindowedData_init dat bounds w False = Inr wd"
    and pick: "tree_at (tree wd) i = (start, end') # rest"
    and s0: "0 \<le> start" and edge: "i < start + w" and inside: "i + w < end'"
    and tbl: "end' \<le> int (length dat)"
    by simp_all
  from tree_at_hd[OF pick] have si: "start \<le> i" by simp
  note f = init_fields(1)[OF init] init_False_data[OF init]
  have w0: "0 \<le> window wd" using si edge f by simp
  have il: "i < int (length (data wd))" using inside tbl w0 f by simp
  have lp: "max (window wd + start - i) 0 = w + start - i" using edge f by simp
  have rp: "max 0 (window wd - min end' (int (length (data wd)) - 1) + i) = 0"
    using inside tbl f by (simp add: min_def)
  from get_context_value[OF pick _ w0 s0 il]
  show "get_context wd i =
          Inr (concat (replicate (nat (w + start - i)) (dat ! nat i))
               @ concat (map (\<lambda>k. dat ! k) [nat start..<nat (i + w + 1)]))"
    unfolding lp rp using f by simp
next
  let ?wd = "\<lparr>window = 2, data = [r0, r1, r2, r3, r4], shape = (5, 5 * int (length r0)),
               tree = [(0, 5)], process_all = Some False\<rparr>"
  have init: "WindowedData_init [r0, r1, r2, r3, r4] [(0, 4)] 2 False = Inr ?wd"
    by (simp add: WindowedData_init_def ncols_def)
  have pick: "tree_at (tree ?wd) 0 = (0, 5) # []" by (simp add: tree_at_def)
  have "get_context ?wd 0 = Inr (r0 @ r0 @ r0 @ r1 @ r2)"
    using get_context_value[OF pick]
    by (simp add: len_def upt_conv_Cons numeral_2_eq_2)
  with init show "\<exists>wd5. WindowedData_init [r0, r1, r2, r3, r4] [(0, 4)] 2 False = Inr wd5
         \<and> tree wd5 = [(0, 5)]
         \<and> get_context wd5 0 = Inr (r0 @ r0 @ r0 @ r1 @ r2)"
    by (intro exI[of _ ?wd]) simp
qed


theorem get_context_left_edge_witness:
  "WindowedData_init [[1], [2], [3], [4], [5::int]] [(0, 4)] 2 False
     = Inr \<lparr>window = 2, data = [[1], [2], [3], [4], [5]], shape = (5, 5), tree = [(0, 5)],
            process_all = Some False\<rparr>
   \<and> tree_at [(0, 5)] 1 = [(0, 5)]
   \<and> get_context \<lparr>window = 2, data = [[1], [2], [3], [4], [5::int]], shape = (5, 5),
            tree = [(0, 5)], process_all = Some False\<rparr> 1 = Inr [2, 1, 2, 3, 4]"
proof -
  let ?wd = "\<lparr>window = 2, data = [[1], [2], [3], [4], [5::int]], shape = (5, 5),
               tree = [(0, 5)], process_all = Some False\<rparr>"
  have a: "WindowedData_init [[1], [2], [3], [4], [5::int]] [(0, 4)] 2 False = Inr ?wd"
    by (simp add: WindowedData_init_def ncols_def)
  have b: "tree_at [(0, 5)] 1 = [(0, 5)]"
    by (simp add: tree_at_def)
  note left_edge = get_context_left_edge[of "[[1], [2], [3], [4], [5::int]]" "[(0, 4)]" 2 ?wd
      1 0 5 "[]", THEN conjunct1, rule_format]
  have "get_context ?wd 1 =
          Inr (concat (replicate (nat (2 + 0 - 1)) ([[1], [2], [3], [4], [5::int]] ! nat 1))
               @ concat (map (\<lambda>k. [[1], [2], [3], [4], [5]] ! k) [nat 0..<nat (1 + 2 + 1)]))"
    by (rule left_edge) (simp add: a b)
  then have "get_context ?wd 1 = Inr [2, 1, 2, 3, 4]"
    by (simp add: upt_conv_Cons numeral_2_eq_2)
  with a b show ?thesis by simp
qed

text \<open>
  Claim C3 says that the rows substituted outside the segment are zero-filled. They are
  not: in a table with rows \<open>[1], [2], [3]\<close>, one segment and \<open>w = 1\<close>, the window of
  row \<open>0\<close> starts with a copy of row \<open>0\<close>, not with \<open>[0]\<close>.
\<close>

theorem get_context_padding_counterexample:
  "WindowedData_init [[1], [2], [3::int]] [(0, 2)] 1 False
     = Inr \<lparr>window = 1, data = [[1], [2], [3]], shape = (3, 3), tree = [(0, 3)],
            process_all = Some False\<rparr>
   \<and> get_context \<lparr>window = 1, data = [[1], [2], [3::int]], shape = (3, 3), tree = [(0, 3)],
            process_all = Some False\<rparr> 0 = Inr [1, 1, 2]
   \<and> get_context \<lparr>window = 1, data = [[1], [2], [3::int]], shape = (3, 3), tree = [(0, 3)],
            process_all = Some False\<rparr> 0 \<noteq> Inr [0, 1, 2]"
  by (simp add: WindowedData_init_def ncols_def get_context_def tree_at_def len_def py_slice_def
      np_concatenate_def py_index_def norm_index_def pad_def)

text \<open>
  Claim C3, amended. The rows substituted outside the segment are copies of the requested
  row \<open>i\<close>: the result starts with \<open>max 0 (w + start - i)\<close> copies of row \<open>i\<close>, and, when
  the segment reaches the end of the table, it ends with \<open>max 0 (w - (n - 1) + i)\<close>
  copies of row \<open>i\<close>.
\<close>

theorem get_context_padding_replicates:
  assumes init: "WindowedData_init dat bounds w False = Inr wd"
    and pick: "tree_at (tree wd) i = (start, end') # rest"
    and s0: "0 \<le> start" and w0: "0 \<le> w" and il: "i < int (length dat)"
  shows "\<exists>body. get_context wd i =
             Inr (concat (replicate (nat (w + start - i)) (dat ! nat i)) @ body)
           \<and> (int (length dat) \<le> end' \<longrightarrow>
                (\<exists>fetched. body = fetched
                   @ concat (replicate (nat (w - (int (length dat) - 1) + i)) (dat ! nat i))))"
proof -
  note f = init_fields(1)[OF init] init_False_data[OF init]
  have lp: "nat (max (window wd + start - i) 0) = nat (w + start - i)"
    using f by (simp add: max_def)
  have rp: "int (length dat) \<le> end' \<Longrightarrow>
      nat (max 0 (window wd - min end' (int (length (data wd)) - 1) + i))
        = nat (w - (int (length dat) - 1) + i)"
    using f by (simp add: max_def min_def)
  from get_context_value[OF pick _ _ s0, unfolded lp] f w0 il
  have "get_context wd i =
          Inr (concat (replicate (nat (w + start - i)) (dat ! nat i))
               @ concat (map (\<lambda>k. dat ! k)
                    [nat (i - w + max (w + start - i) 0)..<
                     nat (i + w + 1 - max 0 (w - min end' (int (length dat) - 1) + i))])
               @ concat (replicate (nat (max 0 (w - min end' (int (length dat) - 1) + i)))
                    (dat ! nat i)))"
    by simp
  then show ?thesis using rp f by auto
qed

theorem get_context_padding_replicates_witness:
  "WindowedData_init [[1], [2::int]] [(0, 1)] 2 False
     = Inr \<lparr>window = 2, data = [[1], [2]], shape = (2, 5), tree = [(0, 2)],
            process_all = Some False\<rparr>
   \<and> tree_at [(0, 2)] 1 = [(0, 2)]
   \<and> (\<exists>body. get_context \<lparr>window = 2, data = [[1], [2::int]], shape = (2, 5),
            tree = [(0, 2)], process_all = Some False\<rparr> 1 = Inr ([2] @ body)
         \<and> (\<exists>fetched. body = fetched @ [2, 2]))"
proof -
  let ?wd = "\<lparr>window = 2, data = [[1], [2::int]], shape = (2, 5), tree = [(0, 2)],
            process_all = Some False\<rparr>"
  have a: "WindowedData_init [[1], [2::int]] [(0, 1)] 2 False = Inr ?wd"
    by (simp add: WindowedData_init_def ncols_def)
  have b: "tree_at (tree ?wd) 1 = (0, 2) # []"
    by (simp add: tree_at_def)
  from get_context_padding_replicates[OF a b] a b show ?thesis
    by (simp add: numeral_2_eq_2)
qed

text \<open>
  Claim C1 gives the right padding as \<open>max 0 (w - min (end - 1) (n - 1) + i)\<close> for the
  half-open segment \<open>[start, end)\<close>. The code takes the minimum of \<open>end\<close> itself and
  \<open>n - 1\<close>, so at the right edge of a segment that is not the last one it pads one row
  less and reads the first row of the next segment. With the sentence bounds \<open>(0, 1)\<close>
  and \<open>(2, 3)\<close> over four rows and \<open>w = 1\<close>, the window of row \<open>1\<close> is rows \<open>0, 1, 2\<close>,
  where the specification's row is rows \<open>0, 1, 1\<close>.
\<close>

theorem get_context_right_edge_divergence:
  "WindowedData_init [[1], [2], [3], [4::int]] [(0, 1), (2, 3)] 1 False
     = Inr \<lparr>window = 1, data = [[1], [2], [3], [4]], shape = (4, 3), tree = [(0, 2), (2, 4)],
            process_all = Some False\<rparr>
   \<and> tree_at [(0, 2), (2, 4)] 1 = [(0, 2)]
   \<and> get_context \<lparr>window = 1, data = [[1], [2], [3], [4::int]], shape = (4, 3),
            tree = [(0, 2), (2, 4)], process_all = Some False\<rparr> 1 = Inr [1, 2, 3]
   \<and> spec_get_row [[1], [2], [3], [4::int]] 1 0 2 1 = [1, 2, 2]"
  by (simp add: WindowedData_init_def ncols_def get_context_def tree_at_def len_def py_slice_def
      np_concatenate_def py_index_def norm_index_def pad_def spec_get_row_def upt_conv_Cons)

text \<open>
  Property X1. For a segment that reaches the end of the table, and for every row whose
  window ends inside its segment (\<open>i + w < end\<close>), \<open>get_context\<close> computes the
  specification's row.
\<close>

theorem get_context_agrees_with_spec:
  assumes init: "WindowedData_init dat bounds w False = Inr wd"
    and pick: "tree_at (tree wd) i = (start, end') # rest"
    and s0: "0 \<le> start" and w0: "0 \<le> w" and il: "i < int (length dat)"
    and final: "int (length dat) \<le> end' \<or> i + w < end'"
  shows "get_context wd i = Inr (spec_get_row dat w start end' i)"
proof -
  note f = init_fields(1)[OF init] init_False_data[OF init]
  have rp: "max 0 (window wd - min end' (int (length (data wd)) - 1) + i)
              = max 0 (w - min (end' - 1) (int (length dat) - 1) + i)"
    using final f il by (auto simp: max_def min_def)
  have lp: "max (window wd + start - i) 0 = max 0 (w + start - i)"
    using f by (simp add: max_def)
  from get_context_value[OF pick _ _ s0, unfolded rp lp] f w0 il
  show ?thesis by (simp add: spec_get_row_def Let_def)
qed

theorem get_context_agrees_with_spec_witness:
  "WindowedData_init [[1], [2], [3], [4::int]] [(0, 1), (2, 3)] 1 False
     = Inr \<lparr>window = 1, data = [[1], [2], [3], [4]], shape = (4, 3), tree = [(0, 2), (2, 4)],
            process_all = Some False\<rparr>
   \<and> tree_at [(0, 2), (2, 4)] 3 = [(2, 4)]
   \<and> get_context \<lparr>window = 1, data = [[1], [2], [3], [4::int]], shape = (4, 3),
            tree = [(0, 2), (2, 4)], process_all = Some False\<rparr> 3 = Inr [3, 4, 4]
   \<and> spec_get_row [[1], [2], [3], [4::int]] 1 2 4 3 = [3, 4, 4]"
proof -
  let ?wd = "\<lparr>window = 1, data = [[1], [2], [3], [4::int]], shape = (4, 3),
            tree = [(0, 2), (2, 4)], process_all = Some False\<rparr>"
  have a: "WindowedData_init [[1], [2], [3], [4::int]] [(0, 1), (2, 3)] 1 False = Inr ?wd"
    by (simp add: WindowedData_init_def ncols_def)
  have b: "tree_at (tree ?wd) 3 = (2, 4) # []"
    by (simp add: tree_at_def)
  have c: "spec_get_row [[1], [2], [3], [4::int]] 1 2 4 3 = [3, 4, 4]"
    by (simp add: spec_get_row_def upt_conv_Cons numeral_3_eq_3)
  from get_context_agrees_with_spec[OF a b] a b c show ?thesis by simp
qed

section \<open>Materialization\<close>

lemma collect_map_Inr:
  "collect (map f xs) = Inr ys \<Longrightarrow> length ys = length xs \<and> (\<forall>k<length xs. f (xs ! k) = Inr (ys ! k))"
proof (induction xs arbitrary: ys)
  case Nil
  then show ?case by simp
next
  case (Cons x xs)
  from Cons.prems obtain v vs where fx: "f x = Inr v" and c: "collect (map f xs) = Inr vs"
    and ys: "ys = v # vs"
    by (auto simp: ebind_def split: sum.splits)
  from Cons.IH[OF c] show ?case using fx ys by (auto simp: nth_Cons split: nat.splits)
qed

lemma py_range_all: "py_range 0 (int n) 1 = map int [0..<n]"
  by (simp add: py_range_def)

lemma np_vstack_Inr: "np_vstack vs = Inr m \<Longrightarrow> m = vs"
  by (auto simp: np_vstack_def split: list.splits if_splits)

lemma get_context_process_all [simp]:
  "get_context (wd\<lparr>process_all := x\<rparr>) i = get_context wd i"
  by (simp add: get_context_def len_def Let_def cong: list.case_cong if_cong)

lemma nd_full_slice: "nd_getitem m (Single (ISlice None None None)) = Inr (Matrix m)"
  by (simp add: slice_indices_def py_range_all comp_def map_nth)

lemma nd_row: "0 \<le> i \<Longrightarrow> i < int (length m) \<Longrightarrow> nd_getitem m (Single (IInt i)) = Inr (Vector (m ! nat i))"
  by (simp add: norm_index_def)

text \<open>
  Claim C4. An object built with \<open>process_all = True\<close> answers \<open>self[i]\<close>, for every row
  \<open>i\<close> of the table, with the vector that \<open>get_context i\<close> (and \<open>self[i]\<close>) returns on the
  object built from the same arguments with \<open>process_all = False\<close>; its stored table is
  what \<open>generate_all\<close> computes on that object, and calling \<open>generate_all\<close> on the
  materialized object returns the stored table unchanged.
\<close>

theorem materialize_preserves_rows:
  assumes t: "WindowedData_init dat bounds w True = Inr wdT"
    and f: "WindowedData_init dat bounds w False = Inr wdF"
  shows "(\<forall>i. 0 \<le> i \<and> i < int (length dat) \<longrightarrow>
            (\<exists>v. get_context wdF i = Inr v
                 \<and> getitem wdF (Single (IInt i)) = Inr (Vector v)
                 \<and> getitem wdT (Single (IInt i)) = Inr (Vector v)))
         \<and> generate_all wdF = Inr (Matrix (data wdT))
         \<and> generate_all wdT = Inr (Matrix (data wdT))"
proof -
  define wd0 where "wd0 = \<lparr>window = w, data = dat,
      shape = (int (length dat), (2 * w + 1) * int (ncols dat)),
      tree = remdups (map (\<lambda>e. (fst e, snd e + 1)) bounds), process_all = None\<rparr>"
  from f have wdF: "wdF = wd0\<lparr>process_all := Some False\<rparr>"
    by (auto simp: WindowedData_init_def Let_def wd0_def split: if_splits)
  from t obtain m where g0: "generate_all wd0 = Inr (Matrix m)"
    and wdT: "wdT = wd0\<lparr>data := m, process_all := Some True\<rparr>"
    by (auto simp: WindowedData_init_def Let_def wd0_def split: if_splits sum.splits result.splits)
  have rows0: "iter_rows wd0 (ISlice None None None) = Inr (map int [0..<length dat])"
    by (simp add: iter_rows_def slice_indices_def wd0_def py_range_all)
  have gen: "\<And>wd. process_all wd \<noteq> Some True \<Longrightarrow> generate_all wd =
      ebind (iter_rows wd (ISlice None None None)) (\<lambda>rs.
      ebind (collect (map (get_context wd) rs)) (\<lambda>vs.
      ebind (np_vstack vs) (\<lambda>m. Inr (Matrix m))))"
    by (simp add: generate_all_def getitem_def)
  have p0: "process_all wd0 \<noteq> Some True" by (simp add: wd0_def)
  from g0 obtain vs where c: "collect (map (get_context wd0) (map int [0..<length dat])) = Inr vs"
    and v: "np_vstack vs = Inr m"
    unfolding gen[OF p0] rows0 by (auto simp: ebind_def split: sum.splits)
  from np_vstack_Inr[OF v] have mv: "m = vs" .
  from collect_map_Inr[OF c] have lm: "length m = length dat"
    and ctx: "\<And>k. k < length dat \<Longrightarrow> get_context wd0 (int k) = Inr (m ! k)"
    using mv by simp_all
  have gF: "get_context wdF = get_context wd0" unfolding wdF by (rule ext) simp
  have rowsF: "iter_rows wdF (ISlice None None None) = Inr (map int [0..<length dat])"
    using rows0 by (simp add: iter_rows_def wdF)
  have "generate_all wdF = Inr (Matrix m)"
    using c v by (simp add: gen wdF rowsF[unfolded wdF] gF[unfolded wdF])
  moreover have "generate_all wdT = Inr (Matrix m)"
    by (simp add: generate_all_def getitem_def wdT nd_full_slice del: nd_getitem.simps)
  moreover have "\<exists>v. get_context wdF i = Inr v
                 \<and> getitem wdF (Single (IInt i)) = Inr (Vector v)
                 \<and> getitem wdT (Single (IInt i)) = Inr (Vector v)"
    if "0 \<le> i" "i < int (length dat)" for i
  proof -
    from that have k: "nat i < length dat" and ik: "int (nat i) = i" by simp_all
    from ctx[OF k] have c: "get_context wd0 i = Inr (m ! nat i)" using ik by simp
    have "getitem wdF (Single (IInt i)) = Inr (Vector (m ! nat i))"
      using c by (simp add: getitem_def wdF)
    moreover have "getitem wdT (Single (IInt i)) = Inr (Vector (m ! nat i))"
      using that lm by (simp add: getitem_def wdT nd_row del: nd_getitem.simps)
    ultimately show ?thesis using c gF by simp
  qed
  moreover have "data wdT = m" by (simp add: wdT)
  ultimately show ?thesis by simp
qed


theorem materialize_preserves_rows_witness:
  "WindowedData_init [[1], [2], [3], [4::int]] [(0, 1), (2, 3)] 1 True
     = Inr \<lparr>window = 1, data = [[1, 1, 2], [1, 2, 3], [3, 3, 4], [3, 4, 4]], shape = (4, 3),
            tree = [(0, 2), (2, 4)], process_all = Some True\<rparr>
   \<and> WindowedData_init [[1], [2], [3], [4::int]] [(0, 1), (2, 3)] 1 False
     = Inr \<lparr>window = 1, data = [[1], [2], [3], [4]], shape = (4, 3),
            tree = [(0, 2), (2, 4)], process_all = Some False\<rparr>
   \<and> get_context \<lparr>window = 1, data = [[1], [2], [3], [4::int]], shape = (4, 3),
            tree = [(0, 2), (2, 4)], process_all = Some False\<rparr> 2 = Inr [3, 3, 4]
   \<and> getitem \<lparr>window = 1, data = [[1, 1, 2], [1, 2, 3], [3, 3, 4], [3, 4, 4::int]],
            shape = (4, 3), tree = [(0, 2), (2, 4)], process_all = Some True\<rparr>
         (Single (IInt 2)) = Inr (Vector [3, 3, 4])
   \<and> generate_all \<lparr>window = 1, data = [[1, 1, 2], [1, 2, 3], [3, 3, 4], [3, 4, 4::int]],
            shape = (4, 3), tree = [(0, 2), (2, 4)], process_all = Some True\<rparr>
       = Inr (Matrix [[1, 1, 2], [1, 2, 3], [3, 3, 4], [3, 4, 4]])"
proof -
  let ?wdT = "\<lparr>window = 1, data = [[1, 1, 2], [1, 2, 3], [3, 3, 4], [3, 4, 4::int]],
            shape = (4, 3), tree = [(0, 2), (2, 4)], process_all = Some True\<rparr>"
  let ?wdF = "\<lparr>window = 1, data = [[1], [2], [3], [4::int]], shape = (4, 3),
            tree = [(0, 2), (2, 4)], process_all = Some False\<rparr>"
  have a: "WindowedData_init [[1], [2], [3], [4::int]] [(0, 1), (2, 3)] 1 True = Inr ?wdT"
    by (simp add: WindowedData_init_def ncols_def generate_all_def getitem_def iter_rows_def
        slice_indices_def py_range_def upt_conv_Cons get_context_def tree_at_def len_def
        py_slice_def np_concatenate_def py_index_def norm_index_def pad_def np_vstack_def)
  have b: "WindowedData_init [[1], [2], [3], [4::int]] [(0, 1), (2, 3)] 1 False = Inr ?wdF"
    by (simp add: WindowedData_init_def ncols_def)
  have c: "get_context ?wdF 2 = Inr [3, 3, 4]"
    by (simp add: get_context_def tree_at_def len_def py_slice_def np_concatenate_def
        py_index_def norm_index_def pad_def)
  from materialize_preserves_rows[OF a b]
  have rows: "\<exists>v. get_context ?wdF 2 = Inr v
                 \<and> getitem ?wdF (Single (IInt 2)) = Inr (Vector v)
                 \<and> getitem ?wdT (Single (IInt 2)) = Inr (Vector v)"
    and again: "generate_all ?wdT = Inr (Matrix (data ?wdT))"
    by simp_all
  from rows c have "getitem ?wdT (Single (IInt 2)) = Inr (Vector [3, 3, 4])"
    by auto
  with a b c again show ?thesis by simp
qed

section \<open>Facts about \<open>ExampleVisiting\<close>\<close>

lemma shuffle_from_mset:
  "i < length xs \<Longrightarrow> mset (fst (shuffle_from g p i xs)) = mset xs"
proof (induction i arbitrary: p xs)
  case 0
  then show ?case by simp
next
  case (Suc i)
  let ?j = "g p mod Suc (Suc i)"
  let ?ys = "xs[Suc i := xs ! ?j, ?j := xs ! Suc i]"
  have j: "?j < length xs" using Suc.prems
    by (meson less_Suc_eq_le less_le_trans mod_less_divisor not_less zero_less_Suc Suc_leI le_trans)
  have "mset ?ys = mset xs" using Suc.prems j by (simp add: mset_swap)
  moreover have "i < length ?ys" using Suc.prems by simp
  ultimately show ?case using Suc.IH[of ?ys "Suc p"] by (simp add: Let_def)
qed

lemma all_indices_shuffled_mset:
  "mset (fst (all_indices_shuffled n g p)) = mset [0..<n]"
proof (cases n)
  case 0
  then show ?thesis by (simp add: all_indices_shuffled_def np_random_shuffle_def)
next
  case (Suc m)
  then show ?thesis
    by (simp add: all_indices_shuffled_def np_random_shuffle_def shuffle_from_mset del: upt_Suc)
qed

lemma shuffled_epochs_perms:
  "length (fst (shuffled_epochs k n g p)) = k
   \<and> list_all (\<lambda>xs. mset xs = mset [0..<n]) (fst (shuffled_epochs k n g p))"
proof (induction k arbitrary: p)
  case 0
  then show ?case by simp
next
  case (Suc k)
  obtain xs p1 where a: "all_indices_shuffled n g p = (xs, p1)" by (cases "all_indices_shuffled n g p")
  obtain xss p2 where b: "shuffled_epochs k n g p1 = (xss, p2)" by (cases "shuffled_epochs k n g p1")
  from all_indices_shuffled_mset[of n g p] a have "mset xs = mset [0..<n]" by simp
  moreover from Suc.IH[of p1] b have "length xss = k" "list_all (\<lambda>xs. mset xs = mset [0..<n]) xss"
    by simp_all
  ultimately show ?case using a b by simp
qed

lemma perms_concat_length:
  "list_all (\<lambda>xs. mset xs = mset [0..<n]) xss \<Longrightarrow> length (concat xss) = length xss * n"
proof (induction xss)
  case Nil
  then show ?case by simp
next
  case (Cons xs xss)
  then have "mset xs = mset [0..<n]" by simp
  then have "length xs = n" by (metis length_upt diff_zero size_mset)
  with Cons show ?case by simp
qed

lemma perms_concat_bound:
  "list_all (\<lambda>xs. mset xs = mset [0..<n]) xss \<Longrightarrow> list_all (\<lambda>k. k < n) (concat xss)"
proof (induction xss)
  case Nil
  then show ?case by simp
next
  case (Cons xs xss)
  then have "mset xs = mset [0..<n]" by simp
  then have "set xs = set [0..<n]" by (metis set_mset_mset)
  then have "list_all (\<lambda>k. k < n) xs" by (simp add: list_all_iff)
  with Cons show ?case by simp
qed




lemma generate_ok:
  assumes "1 \<le> epochs_or_1 (epochs (self s))"
  shows "generate_visiting_scheme s =
           (Inr (), s\<lparr>self := (self s)\<lparr>training_schedule :=
                Some (concat (fst (shuffled_epochs (nat (epochs_or_1 (epochs (self s))))
                   (nat (num_examples (dataset (self s)))) (rng_draws s) (rng_pos s))))\<rparr>,
              rng_pos := snd (shuffled_epochs (nat (epochs_or_1 (epochs (self s))))
                   (nat (num_examples (dataset (self s)))) (rng_draws s) (rng_pos s))\<rparr>)"
  using assms by (simp add: generate_visiting_scheme_def Let_def split_beta)

lemma py_slice_drop_take:
  assumes "0 \<le> lo" "0 \<le> hi"
  shows "py_slice xs lo hi = drop (nat lo) (take (nat hi) xs)"
proof -
  have "py_slice xs lo hi
          = take (nat (min hi (int (length xs)) - min lo (int (length xs))))
              (drop (nat (min lo (int (length xs)))) xs)"
    using assms by (simp add: py_slice_def Let_def)
  also have "\<dots> = drop (nat lo) (take (nat hi) xs)"
    using assms by (auto simp: drop_take min_def nat_diff_distrib')
  finally show ?thesis .
qed

lemma list_all_py_slice: "list_all P xs \<Longrightarrow> list_all P (py_slice xs lo hi)"
  by (auto simp: py_slice_def Let_def list_all_iff dest!: in_set_takeD in_set_dropD)

lemma take_rows_ok:
  "list_all (\<lambda>k. k < length a) nb \<Longrightarrow> take_rows a nb = Inr (map (\<lambda>k. a ! k) nb)"
  by (simp add: take_rows_def)

lemma supplier_in_range:
  assumes st: "step < T (self s)"
    and e: "ensure_schedule s = (Inr (), s2)"
    and sch: "training_schedule (self s2) = Some sched"
    and valid: "list_all (\<lambda>k. k < length dat) sched"
    and d: "dataset (self s2) = \<lparr>dataset_data = dat, dataset_target = tgt\<rparr>"
    and len: "length tgt = length dat" and ne: "dat \<noteq> []"
  shows "training_supplier x y other lam (Some step) s =
           (Inr (make_feed x y other lam (batch_indices sched step (batch_size (self s2)))
                  (map (\<lambda>k. dat ! k) (batch_indices sched step (batch_size (self s2))))
                  (map (\<lambda>k. tgt ! k) (batch_indices sched step (batch_size (self s2))))), s2)"
proof -
  let ?nb = "batch_indices sched step (batch_size (self s2))"
  have w: "wrap_step (Some step) s = (Inr step, s)" using st by (simp add: wrap_step_def)
  have v: "list_all (\<lambda>k. k < length dat) ?nb"
    unfolding batch_indices_def by (rule list_all_py_slice[OF valid])
  have n: "num_examples (dataset (self s2)) \<noteq> 0" using ne d by (simp add: num_examples_def)
  show ?thesis
    using n take_rows_ok[OF v] take_rows_ok[of tgt ?nb] v len
    by (simp add: training_supplier_def w e sch d Let_def)
qed


lemma init_ev_fields:
  assumes "ExampleVisiting_init d b ep = Inr ev"
  shows "dataset ev = d" and "batch_size ev = b" and "epochs ev = ep"
    and "training_schedule ev = None" and "b \<noteq> 0"
    and "T ev = (case ep of None \<Rightarrow> ceil_div (num_examples d) b
                 | Some k \<Rightarrow> if k = 0 then ceil_div (num_examples d) b
                            else ceil_div (num_examples d) b * k)"
  using assms by (auto simp: ExampleVisiting_init_def Let_def split: if_splits)


lemma Dataset_init_fields:
  assumes "Dataset_init dat tgt = Inr d"
  shows "d = \<lparr>dataset_data = dat, dataset_target = tgt\<rparr>" and "length tgt = length dat"
    and "num_examples d = int (length dat)"
  using assms by (auto simp: Dataset_init_def num_examples_def split: if_splits)

lemma generated_schedule:
  assumes k: "1 \<le> epochs_or_1 (epochs (self s))"
  defines "r \<equiv> shuffled_epochs (nat (epochs_or_1 (epochs (self s))))
                   (nat (num_examples (dataset (self s)))) (rng_draws s) (rng_pos s)"
  shows "\<exists>s'. generate_visiting_scheme s = (Inr (), s')
           \<and> self s' = (self s)\<lparr>training_schedule := Some (concat (fst r))\<rparr>
           \<and> rng_pos s' = snd r \<and> rng_draws s' = rng_draws s \<and> stdout s' = stdout s"
    and "int (length (fst r)) = epochs_or_1 (epochs (self s))"
    and "list_all (\<lambda>xs. mset xs = mset [0..<nat (num_examples (dataset (self s)))]) (fst r)"
    and "int (length (concat (fst r)))
           = epochs_or_1 (epochs (self s)) * num_examples (dataset (self s))"
    and "list_all (\<lambda>k. k < nat (num_examples (dataset (self s)))) (concat (fst r))"
proof -
  show "\<exists>s'. generate_visiting_scheme s = (Inr (), s')
           \<and> self s' = (self s)\<lparr>training_schedule := Some (concat (fst r))\<rparr>
           \<and> rng_pos s' = snd r \<and> rng_draws s' = rng_draws s \<and> stdout s' = stdout s"
    unfolding generate_ok[OF k] r_def by simp
  note p = shuffled_epochs_perms[of "nat (epochs_or_1 (epochs (self s)))"
      "nat (num_examples (dataset (self s)))" "rng_draws s" "rng_pos s", folded r_def]
  from p k show len: "int (length (fst r)) = epochs_or_1 (epochs (self s))" by simp
  from p show perms: "list_all (\<lambda>xs. mset xs = mset [0..<nat (num_examples (dataset (self s)))]) (fst r)"
    by simp
  from perms_concat_length[OF perms] len
  show "int (length (concat (fst r)))
           = epochs_or_1 (epochs (self s)) * num_examples (dataset (self s))"
    by (simp add: num_examples_def)
  from perms_concat_bound[OF perms]
  show "list_all (\<lambda>k. k < nat (num_examples (dataset (self s)))) (concat (fst r))" .
qed

text \<open>
  Claim C10. Called without a step, the supplier compares \<open>None\<close> with \<open>self.T\<close> in its
  first statement: it raises \<open>TypeError\<close> and the object, the random generator and the
  output are as they were.
\<close>

theorem supplier_without_step:
  "training_supplier x y other_feeds lambda_feeds None s = (Inl TypeError, s)"
  by (simp add: training_supplier_def wrap_step_def)






lemma init_exists: "b \<noteq> 0 \<Longrightarrow> \<exists>ev. ExampleVisiting_init d b ep = Inr ev"
  by (simp add: ExampleVisiting_init_def Let_def)

lemma T_pos_nonempty:
  assumes init: "ExampleVisiting_init d b ep = Inr ev" and t: "0 < T ev"
  shows "num_examples d \<noteq> 0"
proof
  assume "num_examples d = 0"
  then have "ceil_div (num_examples d) b = 0" by (simp add: ceil_div_def)
  with init_ev_fields(6)[OF init] have "T ev = 0" by (simp split: option.splits)
  with t show False by simp
qed

lemma batch_indices_drop_take:
  assumes "0 \<le> step" "0 < b"
  shows "batch_indices sched step b = drop (nat (step * b)) (take (nat ((step + 1) * b)) sched)"
    and "length (batch_indices sched step b) \<le> nat b"
proof -
  have lo: "0 \<le> step * b" and hi: "0 \<le> min ((step + 1) * b) (int (length sched))"
    using assms by simp_all
  have "take (nat (min ((step + 1) * b) (int (length sched)))) sched
               = take (nat ((step + 1) * b)) sched"
  proof (cases "(step + 1) * b \<le> int (length sched)")
    case True
    then show ?thesis by (simp add: min_def)
  next
    case False
    then have "length sched \<le> nat ((step + 1) * b)" by simp
    with False show ?thesis by (simp add: min_def)
  qed
  with py_slice_drop_take[OF lo hi, of sched]
  show eq: "batch_indices sched step b
              = drop (nat (step * b)) (take (nat ((step + 1) * b)) sched)"
    by (simp add: batch_indices_def)
  have "nat ((step + 1) * b) - nat (step * b) = nat b"
    using assms by (simp add: nat_diff_distrib'[symmetric] algebra_simps)
  then show "length (batch_indices sched step b) \<le> nat b"
    unfolding eq by simp
qed

lemma supplier_selects_slice:
  assumes ds: "Dataset_init dat tgt = Inr d"
    and init: "ExampleVisiting_init d b ep = Inr ev"
    and s: "self s = ev\<lparr>training_schedule := Some sched\<rparr>"
    and valid: "list_all (\<lambda>k. k < length dat) sched"
    and st: "step < T ev" and tp: "0 < T ev"
  shows "training_supplier x y other lam (Some step) s =
           (Inr (make_feed x y other lam (batch_indices sched step b)
                  (map (\<lambda>k. dat ! k) (batch_indices sched step b))
                  (map (\<lambda>k. tgt ! k) (batch_indices sched step b))), s)"
proof -
  note f = init_ev_fields[OF init] and g = Dataset_init_fields[OF ds]
  have ne: "dat \<noteq> []" using T_pos_nonempty[OF init tp] g(3) by simp
  have e: "ensure_schedule s = (Inr (), s)" using s by (simp add: ensure_schedule_def)
  have "training_supplier x y other lam (Some step) s =
           (Inr (make_feed x y other lam (batch_indices sched step (batch_size (self s)))
                  (map (\<lambda>k. dat ! k) (batch_indices sched step (batch_size (self s))))
                  (map (\<lambda>k. tgt ! k) (batch_indices sched step (batch_size (self s))))), s)"
    using st s f g by (intro supplier_in_range[OF _ e _ valid _ g(2) ne]) simp_all
  then show ?thesis using s f(2) by simp
qed

text \<open>
  Claim C6. On an object built by the constructor, with a schedule whose entries are
  row numbers of the dataset, a step with \<open>0 \<le> step < T\<close> leaves the state as it is and
  returns the rows of data and targets (and the lambda feeds) at
  \<open>schedule[step * batch_size : min((step + 1) * batch_size, len(schedule))]\<close>, which for
  a positive batch size has at most \<open>batch_size\<close> entries. For every dataset of ten examples with batch size \<open>3\<close>
  and two epochs, \<open>T\<close> is \<open>8\<close>, every generated schedule has \<open>20\<close> entries, and step \<open>3\<close>
  selects the entries at the positions \<open>9\<close>, \<open>10\<close> and \<open>11\<close> of the schedule.
\<close>

theorem batch_for_step_selects_slice:
  fixes dat dat' :: "'a list list"
  shows "(Dataset_init dat tgt = Inr d \<and> ExampleVisiting_init d b ep = Inr ev
      \<and> self s = ev\<lparr>training_schedule := Some sched\<rparr>
      \<and> list_all (\<lambda>k. k < length dat) sched
      \<and> 0 \<le> step \<and> step < T ev
    \<longrightarrow> (\<exists>nb. nb = py_slice sched (step * b) (min ((step + 1) * b) (int (length sched)))
          \<and> training_supplier x y other_feeds lambda_feeds (Some step) s
              = (Inr (make_feed x y other_feeds lambda_feeds nb
                       (map (\<lambda>k. dat ! k) nb) (map (\<lambda>k. tgt ! k) nb)), s)
          \<and> (0 < b \<longrightarrow> nb = drop (nat (step * b)) (take (nat ((step + 1) * b)) sched)
                       \<and> length nb \<le> nat b)))
   \<and> (Dataset_init dat' tgt' = Inr d' \<and> length dat' = 10
    \<longrightarrow> (\<exists>ev'. ExampleVisiting_init d' 3 (Some 2) = Inr ev' \<and> T ev' = 8
          \<and> (\<forall>s0. self s0 = ev' \<longrightarrow>
               (\<exists>s1 schedule. generate_visiting_scheme s0 = (Inr (), s1)
                  \<and> training_schedule (self s1) = Some schedule \<and> length schedule = 20
                  \<and> training_supplier x y other_feeds lambda_feeds (Some 3) s1
                      = (Inr (make_feed x y other_feeds lambda_feeds
                               [schedule ! 9, schedule ! 10, schedule ! 11]
                               (map (\<lambda>k. dat' ! k) [schedule ! 9, schedule ! 10, schedule ! 11])
                               (map (\<lambda>k. tgt' ! k) [schedule ! 9, schedule ! 10, schedule ! 11])),
                         s1)))))"
proof (intro conjI impI)
  assume h: "Dataset_init dat tgt = Inr d \<and> ExampleVisiting_init d b ep = Inr ev
      \<and> self s = ev\<lparr>training_schedule := Some sched\<rparr>
      \<and> list_all (\<lambda>k. k < length dat) sched
      \<and> 0 \<le> step \<and> step < T ev"
  then have tp: "0 < T ev" by simp
  from h supplier_selects_slice[of dat tgt d b ep ev s sched step x y other_feeds lambda_feeds] tp
  have "training_supplier x y other_feeds lambda_feeds (Some step) s =
           (Inr (make_feed x y other_feeds lambda_feeds (batch_indices sched step b)
                  (map (\<lambda>k. dat ! k) (batch_indices sched step b))
                  (map (\<lambda>k. tgt ! k) (batch_indices sched step b))), s)"
    by simp
  moreover from h batch_indices_drop_take[of step b sched]
  have "0 < b \<longrightarrow>
          batch_indices sched step b = drop (nat (step * b)) (take (nat ((step + 1) * b)) sched)
          \<and> length (batch_indices sched step b) \<le> nat b"
    by simp
  moreover have "batch_indices sched step b
      = py_slice sched (step * b) (min ((step + 1) * b) (int (length sched)))"
    by (simp add: batch_indices_def)
  ultimately show "\<exists>nb. nb = py_slice sched (step * b) (min ((step + 1) * b) (int (length sched)))
          \<and> training_supplier x y other_feeds lambda_feeds (Some step) s
              = (Inr (make_feed x y other_feeds lambda_feeds nb
                       (map (\<lambda>k. dat ! k) nb) (map (\<lambda>k. tgt ! k) nb)), s)
          \<and> (0 < b \<longrightarrow> nb = drop (nat (step * b)) (take (nat ((step + 1) * b)) sched)
                       \<and> length nb \<le> nat b)"
    by (intro exI[of _ "batch_indices sched step b"]) blast
next
  assume h: "Dataset_init dat' tgt' = Inr d' \<and> length dat' = 10"
  then have ds: "Dataset_init dat' tgt' = Inr d'" and l10: "length dat' = 10" by simp_all
  note g = Dataset_init_fields[OF ds]
  have n: "num_examples d' = 10" using g(3) l10 by simp
  obtain ev' where init: "ExampleVisiting_init d' 3 (Some 2) = Inr ev'"
    using init_exists[of 3 d' "Some 2"] by auto
  note f = init_ev_fields[OF init]
  have t8: "T ev' = 8" using f(6) n by (simp add: ceil_div_def)
  have "\<exists>s1 schedule. generate_visiting_scheme s0 = (Inr (), s1)
                  \<and> training_schedule (self s1) = Some schedule \<and> length schedule = 20
                  \<and> training_supplier x y other_feeds lambda_feeds (Some 3) s1
                      = (Inr (make_feed x y other_feeds lambda_feeds
                               [schedule ! 9, schedule ! 10, schedule ! 11]
                               (map (\<lambda>k. dat' ! k) [schedule ! 9, schedule ! 10, schedule ! 11])
                               (map (\<lambda>k. tgt' ! k) [schedule ! 9, schedule ! 10, schedule ! 11])),
                         s1)"
    if s0: "self s0 = ev'" for s0 :: "'a state"
  proof -
    let ?r = "shuffled_epochs (nat (epochs_or_1 (epochs (self s0))))
                   (nat (num_examples (dataset (self s0)))) (rng_draws s0) (rng_pos s0)"
    let ?sched = "concat (fst ?r)"
    have k: "1 \<le> epochs_or_1 (epochs (self s0))" using s0 f(3) by (simp add: epochs_or_1_def)
    from generated_schedule(1)[OF k] obtain s1 where
      gen: "generate_visiting_scheme s0 = (Inr (), s1)"
      and s1: "self s1 = ev'\<lparr>training_schedule := Some ?sched\<rparr>"
      using s0 by auto
    from generated_schedule(4)[OF k] have len: "length ?sched = 20"
      using s0 f(1) f(3) n by (simp add: epochs_or_1_def)
    from generated_schedule(5)[OF k] have valid: "list_all (\<lambda>k. k < length dat') ?sched"
      using s0 f(1) n l10 by simp
    have nb: "batch_indices ?sched 3 3 = [?sched ! 9, ?sched ! 10, ?sched ! 11]"
      unfolding batch_indices_def using py_slice_nth[of 9 12 ?sched] len
      by (simp add: upt_conv_Cons)
    from supplier_selects_slice[OF ds init s1 valid, of 3 x y other_feeds lambda_feeds] t8
    have "training_supplier x y other_feeds lambda_feeds (Some 3) s1
            = (Inr (make_feed x y other_feeds lambda_feeds
                     [?sched ! 9, ?sched ! 10, ?sched ! 11]
                     (map (\<lambda>k. dat' ! k) [?sched ! 9, ?sched ! 10, ?sched ! 11])
                     (map (\<lambda>k. tgt' ! k) [?sched ! 9, ?sched ! 10, ?sched ! 11])), s1)"
      unfolding nb by simp
    with gen s1 len show ?thesis by (intro exI[of _ s1] exI[of _ ?sched]) simp
  qed
  with init t8 show "\<exists>ev'. ExampleVisiting_init d' 3 (Some 2) = Inr ev' \<and> T ev' = 8
          \<and> (\<forall>s0. self s0 = ev' \<longrightarrow>
               (\<exists>s1 schedule. generate_visiting_scheme s0 = (Inr (), s1)
                  \<and> training_schedule (self s1) = Some schedule \<and> length schedule = 20
                  \<and> training_supplier x y other_feeds lambda_feeds (Some 3) s1
                      = (Inr (make_feed x y other_feeds lambda_feeds
                               [schedule ! 9, schedule ! 10, schedule ! 11]
                               (map (\<lambda>k. dat' ! k) [schedule ! 9, schedule ! 10, schedule ! 11])
                               (map (\<lambda>k. tgt' ! k) [schedule ! 9, schedule ! 10, schedule ! 11])),
                         s1)))"
    by blast
qed


theorem batch_for_step_selects_slice_witness:
  "(Dataset_init [[1], [2], [3::int]] [[4], [5], [6]]
     = Inr \<lparr>dataset_data = [[1], [2], [3]], dataset_target = [[4], [5], [6]]\<rparr>
   \<and> ExampleVisiting_init \<lparr>dataset_data = [[1], [2], [3::int]], dataset_target = [[4], [5], [6]]\<rparr>
        2 None
     = Inr \<lparr>dataset = \<lparr>dataset_data = [[1], [2], [3]], dataset_target = [[4], [5], [6]]\<rparr>,
            batch_size = 2, epochs = None, T = 2, training_schedule = None,
            iter_per_epoch = 1\<rparr>
   \<and> list_all (\<lambda>k. k < length [[1], [2], [3::int]]) [2, 0, 1]
   \<and> py_slice [2, 0, 1::nat] (1 * 2) (min ((1 + 1) * 2) (int (length [2, 0, 1::nat]))) = [1]
   \<and> training_supplier (0::nat) 1 (Map.empty :: nat \<rightharpoonup> nat list) [2 \<mapsto> (\<lambda>nb. nb)] (Some 1)
        \<lparr>self = \<lparr>dataset = \<lparr>dataset_data = [[1], [2], [3::int]],
                  dataset_target = [[4], [5], [6]]\<rparr>,
                batch_size = 2, epochs = None, T = 2, training_schedule = Some [2, 0, 1],
                iter_per_epoch = 1\<rparr>,
          rng_draws = (\<lambda>k. k), rng_pos = 0, stdout = []\<rparr>
     = (Inr (make_feed 0 1 Map.empty [2 \<mapsto> (\<lambda>nb. nb)] [1] [[2]] [[5]]),
        \<lparr>self = \<lparr>dataset = \<lparr>dataset_data = [[1], [2], [3::int]],
                  dataset_target = [[4], [5], [6]]\<rparr>,
                batch_size = 2, epochs = None, T = 2, training_schedule = Some [2, 0, 1],
                iter_per_epoch = 1\<rparr>,
          rng_draws = (\<lambda>k. k), rng_pos = 0, stdout = []\<rparr>))
   \<and> (Dataset_init [[0], [1], [2], [3], [4], [5], [6], [7], [8], [9::int]]
        [[0], [1], [2], [3], [4], [5], [6], [7], [8], [9]]
     = Inr \<lparr>dataset_data = [[0], [1], [2], [3], [4], [5], [6], [7], [8], [9]],
            dataset_target = [[0], [1], [2], [3], [4], [5], [6], [7], [8], [9]]\<rparr>
   \<and> length [[0], [1], [2], [3], [4], [5], [6], [7], [8], [9::int]] = 10
   \<and> ExampleVisiting_init
        \<lparr>dataset_data = [[0], [1], [2], [3], [4], [5], [6], [7], [8], [9::int]],
          dataset_target = [[0], [1], [2], [3], [4], [5], [6], [7], [8], [9]]\<rparr> 3 (Some 2)
     = Inr \<lparr>dataset = \<lparr>dataset_data = [[0], [1], [2], [3], [4], [5], [6], [7], [8], [9]],
              dataset_target = [[0], [1], [2], [3], [4], [5], [6], [7], [8], [9]]\<rparr>,
            batch_size = 3, epochs = Some 2, T = 8, training_schedule = None,
            iter_per_epoch = 3\<rparr>
   \<and> (\<exists>s1 schedule. generate_visiting_scheme
          \<lparr>self = \<lparr>dataset = \<lparr>dataset_data = [[0], [1], [2], [3], [4], [5], [6], [7], [8], [9::int]],
                    dataset_target = [[0], [1], [2], [3], [4], [5], [6], [7], [8], [9]]\<rparr>,
                  batch_size = 3, epochs = Some 2, T = 8, training_schedule = None,
                  iter_per_epoch = 3\<rparr>,
            rng_draws = (\<lambda>k. k), rng_pos = 0, stdout = []\<rparr> = (Inr (), s1)
        \<and> training_schedule (self s1) = Some schedule \<and> length schedule = 20
        \<and> training_supplier (0::nat) 1 (Map.empty :: nat \<rightharpoonup> nat list) [2 \<mapsto> (\<lambda>nb. nb)]
              (Some 3) s1
            = (Inr (make_feed 0 1 Map.empty [2 \<mapsto> (\<lambda>nb. nb)]
                     [schedule ! 9, schedule ! 10, schedule ! 11]
                     (map (\<lambda>k. [[0], [1], [2], [3], [4], [5], [6], [7], [8], [9::int]] ! k)
                        [schedule ! 9, schedule ! 10, schedule ! 11])
                     (map (\<lambda>k. [[0], [1], [2], [3], [4], [5], [6], [7], [8], [9::int]] ! k)
                        [schedule ! 9, schedule ! 10, schedule ! 11])), s1)))"
proof (rule conjI)
  show "Dataset_init [[1], [2], [3::int]] [[4], [5], [6]]
     = Inr \<lparr>dataset_data = [[1], [2], [3]], dataset_target = [[4], [5], [6]]\<rparr>
   \<and> ExampleVisiting_init \<lparr>dataset_data = [[1], [2], [3::int]], dataset_target = [[4], [5], [6]]\<rparr>
        2 None
     = Inr \<lparr>dataset = \<lparr>dataset_data = [[1], [2], [3]], dataset_target = [[4], [5], [6]]\<rparr>,
            batch_size = 2, epochs = None, T = 2, training_schedule = None,
            iter_per_epoch = 1\<rparr>
   \<and> list_all (\<lambda>k. k < length [[1], [2], [3::int]]) [2, 0, 1]
   \<and> py_slice [2, 0, 1::nat] (1 * 2) (min ((1 + 1) * 2) (int (length [2, 0, 1::nat]))) = [1]
   \<and> training_supplier (0::nat) 1 (Map.empty :: nat \<rightharpoonup> nat list) [2 \<mapsto> (\<lambda>nb. nb)] (Some 1)
        \<lparr>self = \<lparr>dataset = \<lparr>dataset_data = [[1], [2], [3::int]],
                  dataset_target = [[4], [5], [6]]\<rparr>,
                batch_size = 2, epochs = None, T = 2, training_schedule = Some [2, 0, 1],
                iter_per_epoch = 1\<rparr>,
          rng_draws = (\<lambda>k. k), rng_pos = 0, stdout = []\<rparr>
     = (Inr (make_feed 0 1 Map.empty [2 \<mapsto> (\<lambda>nb. nb)] [1] [[2]] [[5]]),
        \<lparr>self = \<lparr>dataset = \<lparr>dataset_data = [[1], [2], [3::int]],
                  dataset_target = [[4], [5], [6]]\<rparr>,
                batch_size = 2, epochs = None, T = 2, training_schedule = Some [2, 0, 1],
                iter_per_epoch = 1\<rparr>,
          rng_draws = (\<lambda>k. k), rng_pos = 0, stdout = []\<rparr>)"
  proof -
    let ?d = "\<lparr>dataset_data = [[1], [2], [3::int]], dataset_target = [[4], [5], [6]]\<rparr>"
    let ?ev = "\<lparr>dataset = ?d, batch_size = 2, epochs = None, T = 2, training_schedule = None,
              iter_per_epoch = 1\<rparr>"
    let ?s = "\<lparr>self = ?ev\<lparr>training_schedule := Some [2, 0, 1]\<rparr>,
              rng_draws = (\<lambda>k. k), rng_pos = 0, stdout = []\<rparr>"
    have a: "Dataset_init [[1], [2], [3::int]] [[4], [5], [6]] = Inr ?d"
      by (simp add: Dataset_init_def)
    have b: "ExampleVisiting_init ?d 2 None = Inr ?ev"
      by (simp add: ExampleVisiting_init_def num_examples_def ceil_div_def trunc_div_def)
    have c: "list_all (\<lambda>k. k < length [[1], [2], [3::int]]) [2, 0, 1]" by simp
    have e: "py_slice [2, 0, 1::nat] (1 * 2) (min ((1 + 1) * 2) (int (length [2, 0, 1::nat]))) = [1]"
      by (simp add: py_slice_def)
    note general = batch_for_step_selects_slice[where dat = "[[1], [2], [3::int]]"
        and tgt = "[[4], [5], [6]]" and d = ?d and b = 2 and ep = None and ev = ?ev and s = ?s
        and sched = "[2, 0, 1]" and step = 1 and x = "0::nat" and y = 1
        and other_feeds = "Map.empty :: nat \<rightharpoonup> nat list"
        and lambda_feeds = "[2 \<mapsto> (\<lambda>nb. nb)]", THEN conjunct1, rule_format]
    have "\<exists>nb. nb = py_slice [2, 0, 1] (1 * 2) (min ((1 + 1) * 2) (int (length [2, 0, 1::nat])))
            \<and> training_supplier (0::nat) 1 (Map.empty :: nat \<rightharpoonup> nat list)
                  [2 \<mapsto> (\<lambda>nb. nb)] (Some 1) ?s
                = (Inr (make_feed 0 1 Map.empty [2 \<mapsto> (\<lambda>nb. nb)] nb
                         (map (\<lambda>k. [[1], [2], [3::int]] ! k) nb)
                         (map (\<lambda>k. [[4], [5], [6]] ! k) nb)), ?s)
            \<and> ((0::int) < 2 \<longrightarrow> nb = drop (nat (1 * 2)) (take (nat ((1 + 1) * 2)) [2, 0, 1])
                         \<and> length nb \<le> nat 2)"
      by (rule general) (simp add: a b)
    then have "training_supplier (0::nat) 1 (Map.empty :: nat \<rightharpoonup> nat list)
                  [2 \<mapsto> (\<lambda>nb. nb)] (Some 1) ?s
                = (Inr (make_feed 0 1 Map.empty [2 \<mapsto> (\<lambda>nb. nb)] [1] [[2]] [[5]]), ?s)"
      unfolding e by simp
    with a b c e show ?thesis by simp
  qed
next
  show "Dataset_init [[0], [1], [2], [3], [4], [5], [6], [7], [8], [9::int]]
        [[0], [1], [2], [3], [4], [5], [6], [7], [8], [9]]
     = Inr \<lparr>dataset_data = [[0], [1], [2], [3], [4], [5], [6], [7], [8], [9]],
            dataset_target = [[0], [1], [2], [3], [4], [5], [6], [7], [8], [9]]\<rparr>
   \<and> length [[0], [1], [2], [3], [4], [5], [6], [7], [8], [9::int]] = 10
   \<and> ExampleVisiting_init
        \<lparr>dataset_data = [[0], [1], [2], [3], [4], [5], [6], [7], [8], [9::int]],
          dataset_target = [[0], [1], [2], [3], [4], [5], [6], [7], [8], [9]]\<rparr> 3 (Some 2)
     = Inr \<lparr>dataset = \<lparr>dataset_data = [[0], [1], [2], [3], [4], [5], [6], [7], [8], [9]],
              dataset_target = [[0], [1], [2], [3], [4], [5], [6], [7], [8], [9]]\<rparr>,
            batch_size = 3, epochs = Some 2, T = 8, training_schedule = None,
            iter_per_epoch = 3\<rparr>
   \<and> (\<exists>s1 schedule. generate_visiting_scheme
          \<lparr>self = \<lparr>dataset = \<lparr>dataset_data = [[0], [1], [2], [3], [4], [5], [6], [7], [8], [9::int]],
                    dataset_target = [[0], [1], [2], [3], [4], [5], [6], [7], [8], [9]]\<rparr>,
                  batch_size = 3, epochs = Some 2, T = 8, training_schedule = None,
                  iter_per_epoch = 3\<rparr>,
            rng_draws = (\<lambda>k. k), rng_pos = 0, stdout = []\<rparr> = (Inr (), s1)
        \<and> training_schedule (self s1) = Some schedule \<and> length schedule = 20
        \<and> training_supplier (0::nat) 1 (Map.empty :: nat \<rightharpoonup> nat list) [2 \<mapsto> (\<lambda>nb. nb)]
              (Some 3) s1
            = (Inr (make_feed 0 1 Map.empty [2 \<mapsto> (\<lambda>nb. nb)]
                     [schedule ! 9, schedule ! 10, schedule ! 11]
                     (map (\<lambda>k. [[0], [1], [2], [3], [4], [5], [6], [7], [8], [9::int]] ! k)
                        [schedule ! 9, schedule ! 10, schedule ! 11])
                     (map (\<lambda>k. [[0], [1], [2], [3], [4], [5], [6], [7], [8], [9::int]] ! k)
                        [schedule ! 9, schedule ! 10, schedule ! 11])), s1))"
  proof -
    let ?dat = "[[0], [1], [2], [3], [4], [5], [6], [7], [8], [9::int]]"
    let ?d = "\<lparr>dataset_data = ?dat, dataset_target = ?dat\<rparr>"
    let ?ev = "\<lparr>dataset = ?d, batch_size = 3, epochs = Some 2, T = 8, training_schedule = None,
              iter_per_epoch = 3\<rparr>"
    let ?s = "\<lparr>self = ?ev, rng_draws = (\<lambda>k. k), rng_pos = 0, stdout = []\<rparr>"
    have a: "Dataset_init ?dat ?dat = Inr ?d"
      by (simp add: Dataset_init_def)
    have b: "ExampleVisiting_init ?d 3 (Some 2) = Inr ?ev"
      by (simp add: ExampleVisiting_init_def num_examples_def ceil_div_def trunc_div_def)
    note scenario = batch_for_step_selects_slice[where dat' = ?dat and tgt' = ?dat and d' = ?d
        and x = "0::nat" and y = 1 and other_feeds = "Map.empty :: nat \<rightharpoonup> nat list"
        and lambda_feeds = "[2 \<mapsto> (\<lambda>nb. nb)]", THEN conjunct2, rule_format]
    have "\<exists>ev'. ExampleVisiting_init ?d 3 (Some 2) = Inr ev' \<and> T ev' = 8
            \<and> (\<forall>s0. self s0 = ev' \<longrightarrow>
                 (\<exists>s1 schedule. generate_visiting_scheme s0 = (Inr (), s1)
                    \<and> training_schedule (self s1) = Some schedule \<and> length schedule = 20
                    \<and> training_supplier (0::nat) 1 (Map.empty :: nat \<rightharpoonup> nat list)
                          [2 \<mapsto> (\<lambda>nb. nb)] (Some 3) s1
                        = (Inr (make_feed 0 1 Map.empty [2 \<mapsto> (\<lambda>nb. nb)]
                                 [schedule ! 9, schedule ! 10, schedule ! 11]
                                 (map (\<lambda>k. ?dat ! k) [schedule ! 9, schedule ! 10, schedule ! 11])
                                 (map (\<lambda>k. ?dat ! k) [schedule ! 9, schedule ! 10, schedule ! 11])),
                           s1)))"
      by (rule scenario) (simp add: a)
    then have "\<forall>s0. self s0 = ?ev \<longrightarrow>
                 (\<exists>s1 schedule. generate_visiting_scheme s0 = (Inr (), s1)
                    \<and> training_schedule (self s1) = Some schedule \<and> length schedule = 20
                    \<and> training_supplier (0::nat) 1 (Map.empty :: nat \<rightharpoonup> nat list)
                          [2 \<mapsto> (\<lambda>nb. nb)] (Some 3) s1
                        = (Inr (make_feed 0 1 Map.empty [2 \<mapsto> (\<lambda>nb. nb)]
                                 [schedule ! 9, schedule ! 10, schedule ! 11]
                                 (map (\<lambda>k. ?dat ! k) [schedule ! 9, schedule ! 10, schedule ! 11])
                                 (map (\<lambda>k. ?dat ! k) [schedule ! 9, schedule ! 10, schedule ! 11])),
                           s1))"
      unfolding b by simp
    then have "\<exists>s1 schedule. generate_visiting_scheme ?s = (Inr (), s1)
                    \<and> training_schedule (self s1) = Some schedule \<and> length schedule = 20
                    \<and> training_supplier (0::nat) 1 (Map.empty :: nat \<rightharpoonup> nat list)
                          [2 \<mapsto> (\<lambda>nb. nb)] (Some 3) s1
                        = (Inr (make_feed 0 1 Map.empty [2 \<mapsto> (\<lambda>nb. nb)]
                                 [schedule ! 9, schedule ! 10, schedule ! 11]
                                 (map (\<lambda>k. ?dat ! k) [schedule ! 9, schedule ! 10, schedule ! 11])
                                 (map (\<lambda>k. ?dat ! k) [schedule ! 9, schedule ! 10, schedule ! 11])),
                           s1)"
      by simp
    with a b show ?thesis by simp
  qed
qed






end
